theory Spec2Isabelle
  imports Complex_Main
begin

section \<open>JavaScript values read by the gateway\<close>

text \<open>
  The gateway (\<^verbatim>\<open>src/index.ts\<close>) reads three kinds of untyped data: the bindings of the
  environment, the optional GraphQL arguments, and the JSON bodies of the upstream answers.
  A string-valued slot that may be missing is a \<open>jsstr\<close>: \<open>SUndefined\<close> (binding or
  argument not there), \<open>SNull\<close> (an explicit GraphQL \<^verbatim>\<open>null\<close>) or \<open>SStr s\<close>.
  A parsed JSON body, and whatever is read out of it, is a \<open>jsval\<close>; \<open>JUndefined\<close> is
  what reading a missing property gives. Numbers are the integers (token counts), and an
  object is the list of its members, each name once.

  The \<^verbatim>\<open>console.log\<close> and \<^verbatim>\<open>console.error\<close> calls of the source have no effect
  on any result and are left out.
\<close>

datatype jsstr = SUndefined | SNull | SStr string

datatype jsval =
    JUndefined
  | JNull
  | JBool bool
  | JNum int
  | JStr string
  | JArr "jsval list"
  | JObj "(string \<times> jsval) list"

text \<open>JavaScript truthiness, as \<^verbatim>\<open>!x\<close>, \<^verbatim>\<open>x || y\<close>, \<^verbatim>\<open>x ? a : b\<close> and \<^verbatim>\<open>x && y\<close> test it.\<close>

fun str_truthy :: "jsstr \<Rightarrow> bool" where
  "str_truthy SUndefined = False"
| "str_truthy SNull = False"
| "str_truthy (SStr s) = (s \<noteq> [])"

fun truthy :: "jsval \<Rightarrow> bool" where
  "truthy JUndefined = False"
| "truthy JNull = False"
| "truthy (JBool b) = b"
| "truthy (JNum n) = (n \<noteq> 0)"
| "truthy (JStr s) = (s \<noteq> [])"
| "truthy (JArr xs) = True"
| "truthy (JObj kvs) = True"

fun nullish :: "jsval \<Rightarrow> bool" where
  "nullish JUndefined = True"
| "nullish JNull = True"
| "nullish v = False"

text \<open>\<^verbatim>\<open>a || b\<close> on string slots: the left operand when it is truthy, else the right one.\<close>

definition str_or :: "jsstr \<Rightarrow> jsstr \<Rightarrow> jsstr" where
  "str_or a b = (if str_truthy a then a else b)"

text \<open>A default parameter \<^verbatim>\<open>x = 'd'\<close> replaces \<^verbatim>\<open>undefined\<close> only; \<^verbatim>\<open>null\<close> stays.\<close>

definition default_param :: "jsstr \<Rightarrow> string \<Rightarrow> jsstr" where
  "default_param a d = (case a of SUndefined \<Rightarrow> SStr d | SNull \<Rightarrow> SNull | SStr s \<Rightarrow> SStr s)"

text \<open>The text a template literal \<^verbatim>\<open>`${x}`\<close> inserts for a string slot.\<close>

fun str_text :: "jsstr \<Rightarrow> string" where
  "str_text SUndefined = ''undefined''"
| "str_text SNull = ''null''"
| "str_text (SStr s) = s"

section \<open>Errors\<close>

text \<open>
  Every \<^verbatim>\<open>throw\<close> and every rejected promise of the source is a value of \<open>error\<close>:
  \<^item> \<open>MissingKey p\<close>: \<^verbatim>\<open>new Error('OpenAI API key is not configured')\<close>, and the same
    with \<^verbatim>\<open>DeepSeek\<close>;
  \<^item> \<open>InsufficientQuota\<close>: the OpenAI client's error whose message says, in Chinese, that
    the OpenAI account balance is insufficient and asks to top up;
  \<^item> \<open>OpenAIApiError status errorData\<close>:
    \<^verbatim>\<open>new Error(`OpenAI API error: ${response.status} ${JSON.stringify(errorData)}`)\<close>;
  \<^item> \<open>DeepSeekApiError status errorText\<close>:
    \<^verbatim>\<open>new Error(`DeepSeek API error: ${response.status} ${errorText}`)\<close>;
  \<^item> \<open>FetchRejected why\<close>: \<^verbatim>\<open>fetch\<close> itself rejected (no answer from the network);
  \<^item> \<open>JsonSyntaxError\<close>: \<^verbatim>\<open>response.json()\<close> rejected, the body is not JSON;
  \<^item> \<open>TypeError\<close>: a property was read from \<^verbatim>\<open>null\<close> or \<^verbatim>\<open>undefined\<close>;
  \<^item> \<open>ResolverError prefix e\<close>: \<^verbatim>\<open>new Error(`<prefix>${error.message}`)\<close> thrown by a
    resolver's \<^verbatim>\<open>catch\<close>, \<open>e\<close> being the error it caught.
\<close>

datatype provider_id = OpenAI | DeepSeek

datatype error =
    MissingKey provider_id
  | InsufficientQuota
  | OpenAIApiError nat jsval
  | DeepSeekApiError nat string
  | FetchRejected string
  | JsonSyntaxError
  | TypeError
  | ResolverError string error

section \<open>Reading a JSON value\<close>

text \<open>
  \<open>js_get v k\<close> is the member access \<^verbatim>\<open>v.k\<close> (and \<^verbatim>\<open>v[0]\<close> for \<open>k = ''0''\<close>): it
  throws on \<^verbatim>\<open>null\<close> and \<^verbatim>\<open>undefined\<close>, looks the key up in an object, and gives
  \<^verbatim>\<open>undefined\<close> for a key that is not there. It covers the names the program reads
  (\<^verbatim>\<open>error type choices 0 message content usage prompt_tokens completion_tokens total_tokens\<close>),
  none of which is a built-in property of a string, an array, a number or a boolean.
\<close>

fun js_get :: "jsval \<Rightarrow> string \<Rightarrow> error + jsval" where
  "js_get JUndefined k = Inl TypeError"
| "js_get JNull k = Inl TypeError"
| "js_get (JObj kvs) k = Inr (case map_of kvs k of None \<Rightarrow> JUndefined | Some v \<Rightarrow> v)"
| "js_get (JArr xs) k =
     Inr (if k = ''0'' then (case xs of [] \<Rightarrow> JUndefined | x # _ \<Rightarrow> x) else JUndefined)"
| "js_get (JStr s) k =
     Inr (if k = ''0'' then (case s of [] \<Rightarrow> JUndefined | c # _ \<Rightarrow> JStr [c]) else JUndefined)"
| "js_get (JBool b) k = Inr JUndefined"
| "js_get (JNum n) k = Inr JUndefined"

section \<open>Data model\<close>

datatype role = System | User | Assistant

record AIMessage =
  role :: role
  content :: string

record Env =
  OPENAI_API_KEY :: jsstr
  DEEPSEEK_API_KEY :: jsstr
  ENVIRONMENT :: jsstr
  DEFAULT_MODEL :: jsstr

text \<open>
  What \<^verbatim>\<open>fetch\<close> is called with: the endpoint, the two headers, and the three members
  of the JSON body.
\<close>

record request =
  url :: string
  http_method :: string
  content_type :: string
  authorization :: string
  body_model :: jsstr
  body_messages :: "AIMessage list"
  body_temperature :: rat

text \<open>
  What \<^verbatim>\<open>fetch\<close> resolves to. \<open>body_text\<close> is what \<^verbatim>\<open>response.text()\<close> gives,
  \<open>body_json\<close> what \<^verbatim>\<open>response.json()\<close> gives (\<open>None\<close>: it rejects, the body is not
  JSON). \<^verbatim>\<open>response.ok\<close> is the status being in 200..299.
\<close>

record response =
  status :: nat
  body_text :: string
  body_json :: "jsval option"

definition ok :: "response \<Rightarrow> bool" where
  "ok r = (200 \<le> status r \<and> status r \<le> 299)"

datatype fetch_outcome = Rejected string | Responded response

text \<open>
  The network is any function from requests to outcomes. Every client returns, beside its
  result, the list of the requests it issued, in order.
\<close>

type_synonym network = "request \<Rightarrow> fetch_outcome"

record client_result =
  result_content :: jsval
  result_usage :: jsval

record ai_result = client_result +
  provider :: jsstr

record Usage =
  promptTokens :: jsval
  completionTokens :: jsval
  totalTokens :: jsval

record AIResponse =
  resp_content :: jsval
  resp_model :: jsstr
  resp_provider :: jsstr
  resp_usage :: Usage

section \<open>The provider clients\<close>

definition openai_url :: string where
  "openai_url = ''https://api.openai.com/v1/chat/completions''"

definition deepseek_url :: string where
  "deepseek_url = ''https://api.deepseek.com/v1/chat/completions''"

text \<open>The \<^verbatim>\<open>fetch\<close> call both clients make, up to the endpoint.\<close>

definition chat_request :: "string \<Rightarrow> jsstr \<Rightarrow> jsstr \<Rightarrow> AIMessage list \<Rightarrow> request" where
  "chat_request endpoint apiKey model messages =
     \<lparr> url = endpoint,
       http_method = ''POST'',
       content_type = ''application/json'',
       authorization = ''Bearer '' @ str_text apiKey,
       body_model = model,
       body_messages = messages,
       body_temperature = 7 / 10 \<rparr>"

text \<open>\<^verbatim>\<open>data.choices[0]?.message.content\<close>: only a nullish first choice short-circuits.\<close>

definition choice_content :: "jsval \<Rightarrow> error + jsval" where
  "choice_content data =
     (case js_get data ''choices'' of
        Inl e \<Rightarrow> Inl e
      | Inr choices \<Rightarrow>
          (case js_get choices ''0'' of
             Inl e \<Rightarrow> Inl e
           | Inr choice \<Rightarrow>
               if nullish choice then Inr JUndefined
               else (case js_get choice ''message'' of
                       Inl e \<Rightarrow> Inl e
                     | Inr message \<Rightarrow> js_get message ''content'')))"

text \<open>
  \<^verbatim>\<open>{ content: data.choices[0]?.message.content || 'No response', usage: data.usage }\<close>
\<close>

definition parse_completion :: "jsval \<Rightarrow> error + client_result" where
  "parse_completion data =
     (case choice_content data of
        Inl e \<Rightarrow> Inl e
      | Inr c \<Rightarrow>
          (case js_get data ''usage'' of
             Inl e \<Rightarrow> Inl e
           | Inr u \<Rightarrow>
               Inr \<lparr> result_content = (if truthy c then c else JStr ''No response''),
                     result_usage = u \<rparr>))"

text \<open>
  \<^verbatim>\<open>errorData.error?.type === 'insufficient_quota'\<close>, which throws when
  \<^verbatim>\<open>errorData\<close> is \<^verbatim>\<open>null\<close>.
\<close>

definition quota_marker :: "jsval \<Rightarrow> error + bool" where
  "quota_marker errorData =
     (case js_get errorData ''error'' of
        Inl e \<Rightarrow> Inl e
      | Inr err \<Rightarrow>
          if nullish err then Inr False
          else (case js_get err ''type'' of
                  Inl e \<Rightarrow> Inl e
                | Inr t \<Rightarrow> Inr (t = JStr ''insufficient_quota'')))"

text \<open>
  \<^verbatim>\<open>callOpenAI\<close> (lines 59-99). The \<^verbatim>\<open>catch\<close> logs and rethrows, so it is the identity
  on the error.
\<close>

definition callOpenAI ::
  "network \<Rightarrow> AIMessage list \<Rightarrow> jsstr \<Rightarrow> jsstr \<Rightarrow> (error + client_result) \<times> request list" where
  "callOpenAI net messages apiKey model0 =
     (let model = default_param model0 ''gpt-3.5-turbo'' in
      if \<not> str_truthy apiKey then (Inl (MissingKey OpenAI), [])
      else
        let req = chat_request openai_url apiKey model messages in
        (case net req of
           Rejected why \<Rightarrow> (Inl (FetchRejected why), [req])
         | Responded response \<Rightarrow>
             if \<not> ok response then
               (case body_json response of
                  None \<Rightarrow> (Inl JsonSyntaxError, [req])
                | Some errorData \<Rightarrow>
                    (case quota_marker errorData of
                       Inl e \<Rightarrow> (Inl e, [req])
                     | Inr quota \<Rightarrow>
                         if quota then (Inl InsufficientQuota, [req])
                         else (Inl (OpenAIApiError (status response) errorData), [req])))
             else
               (case body_json response of
                  None \<Rightarrow> (Inl JsonSyntaxError, [req])
                | Some data \<Rightarrow> (parse_completion data, [req]))))"

text \<open>\<^verbatim>\<open>callDeepSeek\<close> (lines 102-144); the error body is read as text.\<close>

definition callDeepSeek ::
  "network \<Rightarrow> AIMessage list \<Rightarrow> jsstr \<Rightarrow> jsstr \<Rightarrow> (error + client_result) \<times> request list" where
  "callDeepSeek net messages apiKey model0 =
     (let model = default_param model0 ''deepseek-chat'' in
      if \<not> str_truthy apiKey then (Inl (MissingKey DeepSeek), [])
      else
        let req = chat_request deepseek_url apiKey model messages in
        (case net req of
           Rejected why \<Rightarrow> (Inl (FetchRejected why), [req])
         | Responded response \<Rightarrow>
             if \<not> ok response then
               (Inl (DeepSeekApiError (status response) (body_text response)), [req])
             else
               (case body_json response of
                  None \<Rightarrow> (Inl JsonSyntaxError, [req])
                | Some data \<Rightarrow> (parse_completion data, [req]))))"

section \<open>The coordinator\<close>

text \<open>\<^verbatim>\<open>{ ...result, provider }\<close>\<close>

definition with_provider :: "client_result \<Rightarrow> jsstr \<Rightarrow> ai_result" where
  "with_provider result p =
     \<lparr> result_content = result_content result, result_usage = result_usage result,
       provider = p \<rparr>"

text \<open>
  The \<^verbatim>\<open>try\<close> block of \<^verbatim>\<open>callAI\<close> (lines 154-168): the call to the client of the
  preferred provider, with the model that call site resolves.
\<close>

definition primary_call ::
  "network \<Rightarrow> AIMessage list \<Rightarrow> Env \<Rightarrow> jsstr \<Rightarrow> jsstr \<Rightarrow> (error + client_result) \<times> request list" where
  "primary_call net messages env preferred model =
     (if preferred = SStr ''deepseek'' then
        callDeepSeek net messages (DEEPSEEK_API_KEY env)
          (str_or model (SStr ''deepseek-chat''))
      else
        callOpenAI net messages (OPENAI_API_KEY env)
          (str_or (str_or model (DEFAULT_MODEL env)) (SStr ''deepseek-chat'')))"

text \<open>
  \<^verbatim>\<open>callAI\<close> (lines 147-204). The \<^verbatim>\<open>catch\<close> block is the branch on \<open>Inl error\<close>;
  a failure of the fallback call leaves the \<^verbatim>\<open>catch\<close> block as it is.
\<close>

definition callAI ::
  "network \<Rightarrow> AIMessage list \<Rightarrow> Env \<Rightarrow> jsstr \<Rightarrow> jsstr \<Rightarrow> (error + ai_result) \<times> request list" where
  "callAI net messages env provider0 model =
     (let provider = default_param provider0 ''openai'';
          primary = primary_call net messages env provider model
      in
      case fst primary of
        Inr result \<Rightarrow> (Inr (with_provider result provider), snd primary)
      | Inl error \<Rightarrow>
          if provider = SStr ''openai'' \<and> str_truthy (DEEPSEEK_API_KEY env) then
            (let fallback =
                   callDeepSeek net messages (DEEPSEEK_API_KEY env) (SStr ''deepseek-chat'')
             in case fst fallback of
                  Inl e \<Rightarrow> (Inl e, snd primary @ snd fallback)
                | Inr fallbackResult \<Rightarrow>
                    (Inr (with_provider fallbackResult (SStr ''deepseek'')),
                     snd primary @ snd fallback))
          else if provider = SStr ''deepseek'' \<and> str_truthy (OPENAI_API_KEY env) then
            (let fallback =
                   callOpenAI net messages (OPENAI_API_KEY env) (SStr ''gpt-3.5-turbo'')
             in case fst fallback of
                  Inl e \<Rightarrow> (Inl e, snd primary @ snd fallback)
                | Inr fallbackResult \<Rightarrow>
                    (Inr (with_provider fallbackResult (SStr ''openai'')),
                     snd primary @ snd fallback))
          else (Inl error, snd primary))"

section \<open>The resolvers\<close>

text \<open>
  \<^verbatim>\<open>result.usage ? { promptTokens: result.usage.prompt_tokens, ... } : { promptTokens: 0, ... }\<close>
\<close>

definition usage_of :: "jsval \<Rightarrow> error + Usage" where
  "usage_of u =
     (if truthy u then
        (case js_get u ''prompt_tokens'' of
           Inl e \<Rightarrow> Inl e
         | Inr p \<Rightarrow>
             (case js_get u ''completion_tokens'' of
                Inl e \<Rightarrow> Inl e
              | Inr c \<Rightarrow>
                  (case js_get u ''total_tokens'' of
                     Inl e \<Rightarrow> Inl e
                   | Inr t \<Rightarrow>
                       Inr \<lparr> promptTokens = p, completionTokens = c, totalTokens = t \<rparr>)))
      else Inr \<lparr> promptTokens = JNum 0, completionTokens = JNum 0, totalTokens = JNum 0 \<rparr>)"

text \<open>The \<^verbatim>\<open>chatGPT\<close> resolver (lines 276-301).\<close>

definition chatGPT ::
  "network \<Rightarrow> string \<Rightarrow> jsstr \<Rightarrow> Env \<Rightarrow> (error + AIResponse) \<times> request list" where
  "chatGPT net prompt model0 env =
     (let model = default_param model0 ''gpt-3.5-turbo'';
          messages = [\<lparr> role = User, content = prompt \<rparr>];
          called = callOpenAI net messages (OPENAI_API_KEY env) model
      in
      case fst called of
        Inl error \<Rightarrow> (Inl (ResolverError ''ChatGPT error: '' error), snd called)
      | Inr result \<Rightarrow>
          (case usage_of (result_usage result) of
             Inl error \<Rightarrow> (Inl (ResolverError ''ChatGPT error: '' error), snd called)
           | Inr u \<Rightarrow>
               (Inr \<lparr> resp_content = result_content result,
                      resp_model = model,
                      resp_provider = SStr ''openai'',
                      resp_usage = u \<rparr>, snd called)))"

text \<open>The \<^verbatim>\<open>deepseek\<close> resolver (lines 304-329).\<close>

definition deepseek ::
  "network \<Rightarrow> string \<Rightarrow> jsstr \<Rightarrow> Env \<Rightarrow> (error + AIResponse) \<times> request list" where
  "deepseek net prompt model0 env =
     (let model = default_param model0 ''deepseek-chat'';
          messages = [\<lparr> role = User, content = prompt \<rparr>];
          called = callDeepSeek net messages (DEEPSEEK_API_KEY env) model
      in
      case fst called of
        Inl error \<Rightarrow> (Inl (ResolverError ''DeepSeek error: '' error), snd called)
      | Inr result \<Rightarrow>
          (case usage_of (result_usage result) of
             Inl error \<Rightarrow> (Inl (ResolverError ''DeepSeek error: '' error), snd called)
           | Inr u \<Rightarrow>
               (Inr \<lparr> resp_content = result_content result,
                      resp_model = model,
                      resp_provider = SStr ''deepseek'',
                      resp_usage = u \<rparr>, snd called)))"

text \<open>The \<^verbatim>\<open>askAI\<close> resolver (lines 332-357).\<close>

definition askAI ::
  "network \<Rightarrow> string \<Rightarrow> jsstr \<Rightarrow> jsstr \<Rightarrow> Env \<Rightarrow> (error + AIResponse) \<times> request list" where
  "askAI net prompt provider0 model env =
     (let provider = default_param provider0 ''openai'';
          messages = [\<lparr> role = User, content = prompt \<rparr>];
          called = callAI net messages env provider model
      in
      case fst called of
        Inl error \<Rightarrow> (Inl (ResolverError ''AI query failed: '' error), snd called)
      | Inr result \<Rightarrow>
          (case usage_of (result_usage result) of
             Inl error \<Rightarrow> (Inl (ResolverError ''AI query failed: '' error), snd called)
           | Inr u \<Rightarrow>
               (Inr \<lparr> resp_content = result_content result,
                      resp_model =
                        str_or model
                          (if provider = SStr ''deepseek'' then SStr ''deepseek-chat''
                           else SStr ''gpt-3.5-turbo''),
                      resp_provider = ai_result.provider result,
                      resp_usage = u \<rparr>, snd called)))"

section \<open>Example exchanges\<close>

text \<open>
  Concrete inputs on which the theorems below are evaluated: a one-message conversation,
  upstream answers as the two providers send them, a network that answers per endpoint,
  and an environment given by its two keys and its default model.
\<close>

definition hi :: "AIMessage list" where
  "hi = [\<lparr> role = User, content = ''hi'' \<rparr>]"

definition completion :: jsval where
  "completion =
     JObj [(''choices'',
            JArr [JObj [(''index'', JNum 0),
                        (''message'', JObj [(''role'', JStr ''assistant''),
                                            (''content'', JStr ''hello'')]),
                        (''finish_reason'', JStr ''stop'')]]),
           (''usage'', JObj [(''prompt_tokens'', JNum 5),
                             (''completion_tokens'', JNum 7),
                             (''total_tokens'', JNum 12)])]"

definition completion_text :: string where
  \<open>completion_text = ''{"choices":[{"index":0,"message":{"role":"assistant","content":"hello"},"finish_reason":"stop"}],"usage":{"prompt_tokens":5,"completion_tokens":7,"total_tokens":12}}''\<close>

definition good :: response where
  "good = \<lparr> status = 200, body_text = completion_text, body_json = Some completion \<rparr>"

definition bad_gateway :: response where
  "bad_gateway = \<lparr> status = 502, body_text = ''<html>Bad Gateway</html>'', body_json = None \<rparr>"

definition unauthorized :: response where
  \<open>unauthorized =
     \<lparr> status = 401,
       body_text = ''{"error":{"message":"Incorrect API key","type":"invalid_request_error"}}'',
       body_json = Some (JObj [(''error'', JObj [(''message'', JStr ''Incorrect API key''),
                                                (''type'', JStr ''invalid_request_error'')])]) \<rparr>\<close>

definition empty_choices :: response where
  \<open>empty_choices =
     \<lparr> status = 200, body_text = ''{"choices":[]}'',
       body_json = Some (JObj [(''choices'', JArr [])]) \<rparr>\<close>

definition blank_content :: response where
  \<open>blank_content =
     \<lparr> status = 200,
       body_text = ''{"choices":[{"index":0,"message":{"role":"assistant","content":""}}]}'',
       body_json = Some (JObj [(''choices'',
                     JArr [JObj [(''index'', JNum 0),
                                 (''message'', JObj [(''role'', JStr ''assistant''),
                                                     (''content'', JStr [])])]])]) \<rparr>\<close>

definition no_usage :: response where
  \<open>no_usage =
     \<lparr> status = 200,
       body_text = ''{"choices":[{"index":0,"message":{"role":"assistant","content":"hello"}}]}'',
       body_json = Some (JObj [(''choices'',
                     JArr [JObj [(''index'', JNum 0),
                                 (''message'', JObj [(''role'', JStr ''assistant''),
                                                     (''content'', JStr ''hello'')])]])]) \<rparr>\<close>

definition no_message :: response where
  \<open>no_message =
     \<lparr> status = 200,
       body_text = ''{"choices":[{"index":0,"finish_reason":"stop"}]}'',
       body_json = Some (JObj [(''choices'',
                     JArr [JObj [(''index'', JNum 0),
                                 (''finish_reason'', JStr ''stop'')]])]) \<rparr>\<close>

definition error_as_success :: response where
  \<open>error_as_success =
     \<lparr> status = 200,
       body_text = ''{"error":{"message":"overloaded"}}'',
       body_json = Some (JObj [(''error'', JObj [(''message'', JStr ''overloaded'')])]) \<rparr>\<close>

definition answers :: "response \<Rightarrow> response \<Rightarrow> network" where
  "answers a b = (\<lambda>req. if url req = openai_url then Responded a else Responded b)"

definition env_of :: "jsstr \<Rightarrow> jsstr \<Rightarrow> jsstr \<Rightarrow> Env" where
  "env_of a b c = \<lparr> OPENAI_API_KEY = a, DEEPSEEK_API_KEY = b, ENVIRONMENT = SUndefined, DEFAULT_MODEL = c \<rparr>"

section \<open>Facts about the clients\<close>

lemmas client_defs =
  callOpenAI_def callDeepSeek_def parse_completion_def choice_content_def quota_marker_def
  chat_request_def default_param_def str_or_def ok_def openai_url_def deepseek_url_def

lemmas resolver_defs =
  askAI_def chatGPT_def deepseek_def callAI_def primary_call_def with_provider_def usage_of_def
  Let_def

lemmas exchange_defs =
  answers_def env_of_def hi_def good_def completion_def bad_gateway_def unauthorized_def
  empty_choices_def blank_content_def no_usage_def no_message_def error_as_success_def

text \<open>A client issues at most one request; with a key it issues exactly the one below.\<close>

lemma client_trace_short:
  "length (snd (callOpenAI net ms k m)) \<le> 1" "length (snd (callDeepSeek net ms k m)) \<le> 1"
  by (simp_all add: callOpenAI_def callDeepSeek_def Let_def
        split: fetch_outcome.splits option.splits sum.splits)

lemma callDeepSeek_trace:
  "str_truthy k \<Longrightarrow> snd (callDeepSeek net ms k (SStr m)) = [chat_request deepseek_url k (SStr m) ms]"
  by (simp add: callDeepSeek_def Let_def default_param_def
        split: fetch_outcome.splits option.splits sum.splits)

lemma callOpenAI_trace:
  "str_truthy k \<Longrightarrow> snd (callOpenAI net ms k (SStr m)) = [chat_request openai_url k (SStr m) ms]"
  by (simp add: callOpenAI_def Let_def default_param_def
        split: fetch_outcome.splits option.splits sum.splits)


lemma str_or_model:
  "str_or (str_or model dm) (SStr d) =
     SStr (if str_truthy model then str_text model
           else if str_truthy dm then str_text dm else d)"
  by (cases model; cases dm) (simp_all add: str_or_def)









text \<open>
  What the two clients do with an answer whose status is outside 200..299, when the
  OpenAI error body is JSON.
\<close>

lemma callOpenAI_error_json:
  assumes "str_truthy k"
      and "net (chat_request openai_url k (default_param m ''gpt-3.5-turbo'') ms) = Responded r"
      and "\<not> ok r" and "body_json r = Some errorData" and "quota_marker errorData = Inr q"
  shows "callOpenAI net ms k m =
           (Inl (if q then InsufficientQuota else OpenAIApiError (status r) errorData),
            [chat_request openai_url k (default_param m ''gpt-3.5-turbo'') ms])"
  using assms by (simp add: callOpenAI_def Let_def)

lemma callDeepSeek_error:
  assumes "str_truthy k"
      and "net (chat_request deepseek_url k (default_param m ''deepseek-chat'') ms) = Responded r"
      and "\<not> ok r"
  shows "callDeepSeek net ms k m =
           (Inl (DeepSeekApiError (status r) (body_text r)),
            [chat_request deepseek_url k (default_param m ''deepseek-chat'') ms])"
  using assms by (simp add: callDeepSeek_def Let_def)

section \<open>The fallback of the coordinator\<close>

text \<open>
  C1. Let the preferred provider be \<^verbatim>\<open>'openai'\<close> (given, or by default) and let its client
  call fail. If a DeepSeek key is configured, \<^verbatim>\<open>callAI\<close> issues exactly one more request,
  to the DeepSeek endpoint with model \<^verbatim>\<open>'deepseek-chat'\<close> whatever the model override
  was, and its outcome is the outcome of that DeepSeek call, a success being tagged with
  provider \<^verbatim>\<open>'deepseek'\<close>. Symmetrically, for the preferred provider \<^verbatim>\<open>'deepseek'\<close> and
  a configured OpenAI key, the one further request goes to the OpenAI endpoint with model
  \<^verbatim>\<open>'gpt-3.5-turbo'\<close> and a success is tagged \<^verbatim>\<open>'openai'\<close>. If neither fallback condition
  holds, \<^verbatim>\<open>callAI\<close> fails with the error of the primary call and issues no further
  request.
\<close>

theorem callAI_fallback:
  "(default_param p ''openai'' = SStr ''openai''
      \<and> fst (primary_call net ms env (SStr ''openai'') model) = Inl e
      \<and> str_truthy (DEEPSEEK_API_KEY env)
    \<longrightarrow> callAI net ms env p model =
          (map_sum id (\<lambda>r. with_provider r (SStr ''deepseek''))
             (fst (callDeepSeek net ms (DEEPSEEK_API_KEY env) (SStr ''deepseek-chat''))),
           snd (primary_call net ms env (SStr ''openai'') model)
           @ [chat_request deepseek_url (DEEPSEEK_API_KEY env) (SStr ''deepseek-chat'') ms]))
   \<and> (p = SStr ''deepseek''
      \<and> fst (primary_call net ms env (SStr ''deepseek'') model) = Inl e
      \<and> str_truthy (OPENAI_API_KEY env)
    \<longrightarrow> callAI net ms env p model =
          (map_sum id (\<lambda>r. with_provider r (SStr ''openai''))
             (fst (callOpenAI net ms (OPENAI_API_KEY env) (SStr ''gpt-3.5-turbo''))),
           snd (primary_call net ms env (SStr ''deepseek'') model)
           @ [chat_request openai_url (OPENAI_API_KEY env) (SStr ''gpt-3.5-turbo'') ms]))
   \<and> (fst (primary_call net ms env (default_param p ''openai'') model) = Inl e
      \<and> \<not> (default_param p ''openai'' = SStr ''openai'' \<and> str_truthy (DEEPSEEK_API_KEY env))
      \<and> \<not> (default_param p ''openai'' = SStr ''deepseek'' \<and> str_truthy (OPENAI_API_KEY env))
    \<longrightarrow> callAI net ms env p model =
          (Inl e, snd (primary_call net ms env (default_param p ''openai'') model)))"
proof (intro conjI impI)
  assume "default_param p ''openai'' = SStr ''openai''
      \<and> fst (primary_call net ms env (SStr ''openai'') model) = Inl e
      \<and> str_truthy (DEEPSEEK_API_KEY env)"
  then show "callAI net ms env p model =
          (map_sum id (\<lambda>r. with_provider r (SStr ''deepseek''))
             (fst (callDeepSeek net ms (DEEPSEEK_API_KEY env) (SStr ''deepseek-chat''))),
           snd (primary_call net ms env (SStr ''openai'') model)
           @ [chat_request deepseek_url (DEEPSEEK_API_KEY env) (SStr ''deepseek-chat'') ms])"
    by (simp add: callAI_def Let_def callDeepSeek_trace split: sum.splits)
next
  assume "p = SStr ''deepseek''
      \<and> fst (primary_call net ms env (SStr ''deepseek'') model) = Inl e
      \<and> str_truthy (OPENAI_API_KEY env)"
  then show "callAI net ms env p model =
          (map_sum id (\<lambda>r. with_provider r (SStr ''openai''))
             (fst (callOpenAI net ms (OPENAI_API_KEY env) (SStr ''gpt-3.5-turbo''))),
           snd (primary_call net ms env (SStr ''deepseek'') model)
           @ [chat_request openai_url (OPENAI_API_KEY env) (SStr ''gpt-3.5-turbo'') ms])"
    by (simp add: callAI_def Let_def default_param_def callOpenAI_trace split: sum.splits)
next
  assume "fst (primary_call net ms env (default_param p ''openai'') model) = Inl e
      \<and> \<not> (default_param p ''openai'' = SStr ''openai'' \<and> str_truthy (DEEPSEEK_API_KEY env))
      \<and> \<not> (default_param p ''openai'' = SStr ''deepseek'' \<and> str_truthy (OPENAI_API_KEY env))"
  then show "callAI net ms env p model =
          (Inl e, snd (primary_call net ms env (default_param p ''openai'') model))"
    by (auto simp add: callAI_def Let_def)
qed

theorem callAI_fallback_witness:
  "callAI (answers bad_gateway good) hi (env_of (SStr ''sk-o'') (SStr ''sk-d'') SUndefined)
      (SStr ''openai'') (SStr ''gpt-4'')
     = (Inr \<lparr> result_content = JStr ''hello'',
              result_usage = JObj [(''prompt_tokens'', JNum 5), (''completion_tokens'', JNum 7),
                                   (''total_tokens'', JNum 12)],
              provider = SStr ''deepseek'' \<rparr>,
        [chat_request openai_url (SStr ''sk-o'') (SStr ''gpt-4'') hi,
         chat_request deepseek_url (SStr ''sk-d'') (SStr ''deepseek-chat'') hi])
   \<and> callAI (answers good bad_gateway) hi (env_of (SStr ''sk-o'') (SStr ''sk-d'') SUndefined)
      (SStr ''deepseek'') (SStr ''deepseek-coder'')
     = (Inr \<lparr> result_content = JStr ''hello'',
              result_usage = JObj [(''prompt_tokens'', JNum 5), (''completion_tokens'', JNum 7),
                                   (''total_tokens'', JNum 12)],
              provider = SStr ''openai'' \<rparr>,
        [chat_request deepseek_url (SStr ''sk-d'') (SStr ''deepseek-coder'') hi,
         chat_request openai_url (SStr ''sk-o'') (SStr ''gpt-3.5-turbo'') hi])
   \<and> callAI (answers bad_gateway good) hi (env_of (SStr ''sk-o'') SUndefined SUndefined)
      (SStr ''openai'') SUndefined
     = (Inl JsonSyntaxError,
        [chat_request openai_url (SStr ''sk-o'') (SStr ''deepseek-chat'') hi])"
proof -
  let ?env = "env_of (SStr ''sk-o'') (SStr ''sk-d'') SUndefined"
  have o: "primary_call (answers bad_gateway good) hi ?env (SStr ''openai'') (SStr ''gpt-4'')
            = (Inl JsonSyntaxError, [chat_request openai_url (SStr ''sk-o'') (SStr ''gpt-4'') hi])"
    by (simp add: primary_call_def callOpenAI_def answers_def bad_gateway_def ok_def
          chat_request_def default_param_def env_of_def str_or_def)
  have d: "callDeepSeek (answers bad_gateway good) hi (SStr ''sk-d'') (SStr ''deepseek-chat'')
            = (Inr \<lparr> result_content = JStr ''hello'',
              result_usage = JObj [(''prompt_tokens'', JNum 5), (''completion_tokens'', JNum 7),
                                   (''total_tokens'', JNum 12)] \<rparr>,
               [chat_request deepseek_url (SStr ''sk-d'') (SStr ''deepseek-chat'') hi])"
    by (simp add: callDeepSeek_def answers_def good_def ok_def completion_def
          parse_completion_def choice_content_def openai_url_def deepseek_url_def
          chat_request_def default_param_def)
  have 1: "callAI (answers bad_gateway good) hi ?env (SStr ''openai'') (SStr ''gpt-4'')
     = (Inr \<lparr> result_content = JStr ''hello'',
              result_usage = JObj [(''prompt_tokens'', JNum 5), (''completion_tokens'', JNum 7),
                                   (''total_tokens'', JNum 12)],
              provider = SStr ''deepseek'' \<rparr>,
        [chat_request openai_url (SStr ''sk-o'') (SStr ''gpt-4'') hi,
         chat_request deepseek_url (SStr ''sk-d'') (SStr ''deepseek-chat'') hi])"
    using callAI_fallback [of "SStr ''openai''" "answers bad_gateway good" hi ?env "SStr ''gpt-4''" JsonSyntaxError] o d
    by (simp add: default_param_def env_of_def with_provider_def)
  have o2: "primary_call (answers good bad_gateway) hi ?env (SStr ''deepseek'') (SStr ''deepseek-coder'')
            = (Inl (DeepSeekApiError 502 ''<html>Bad Gateway</html>''),
               [chat_request deepseek_url (SStr ''sk-d'') (SStr ''deepseek-coder'') hi])"
    by (simp add: primary_call_def callDeepSeek_def answers_def bad_gateway_def ok_def
          chat_request_def default_param_def env_of_def str_or_def openai_url_def deepseek_url_def)
  have d2: "callOpenAI (answers good bad_gateway) hi (SStr ''sk-o'') (SStr ''gpt-3.5-turbo'')
            = (Inr \<lparr> result_content = JStr ''hello'',
              result_usage = JObj [(''prompt_tokens'', JNum 5), (''completion_tokens'', JNum 7),
                                   (''total_tokens'', JNum 12)] \<rparr>,
               [chat_request openai_url (SStr ''sk-o'') (SStr ''gpt-3.5-turbo'') hi])"
    by (simp add: callOpenAI_def answers_def good_def ok_def completion_def
          parse_completion_def choice_content_def
          chat_request_def default_param_def)
  have 2: "callAI (answers good bad_gateway) hi ?env (SStr ''deepseek'') (SStr ''deepseek-coder'')
     = (Inr \<lparr> result_content = JStr ''hello'',
              result_usage = JObj [(''prompt_tokens'', JNum 5), (''completion_tokens'', JNum 7),
                                   (''total_tokens'', JNum 12)],
              provider = SStr ''openai'' \<rparr>,
        [chat_request deepseek_url (SStr ''sk-d'') (SStr ''deepseek-coder'') hi,
         chat_request openai_url (SStr ''sk-o'') (SStr ''gpt-3.5-turbo'') hi])"
    using callAI_fallback [of "SStr ''deepseek''" "answers good bad_gateway" hi ?env
            "SStr ''deepseek-coder''" "DeepSeekApiError 502 ''<html>Bad Gateway</html>''"] o2 d2
    by (simp add: default_param_def env_of_def with_provider_def)
  let ?env3 = "env_of (SStr ''sk-o'') SUndefined SUndefined"
  have o3: "primary_call (answers bad_gateway good) hi ?env3 (SStr ''openai'') SUndefined
            = (Inl JsonSyntaxError, [chat_request openai_url (SStr ''sk-o'') (SStr ''deepseek-chat'') hi])"
    by (simp add: primary_call_def callOpenAI_def answers_def bad_gateway_def ok_def
          chat_request_def default_param_def env_of_def str_or_def)
  have 3: "callAI (answers bad_gateway good) hi ?env3 (SStr ''openai'') SUndefined
     = (Inl JsonSyntaxError,
        [chat_request openai_url (SStr ''sk-o'') (SStr ''deepseek-chat'') hi])"
    using callAI_fallback [of "SStr ''openai''" "answers bad_gateway good" hi ?env3
            SUndefined JsonSyntaxError] o3
    by (simp add: default_param_def env_of_def)
  show ?thesis using 1 2 3 by simp
qed

text \<open>
  C2. On the path of \<^verbatim>\<open>callAI\<close> that calls the OpenAI client (the preferred provider
  is not \<^verbatim>\<open>'deepseek'\<close>), with an OpenAI key present, the first request issued goes to
  the OpenAI endpoint and carries as model the override when it is given (a non-empty
  string), else the configured \<^verbatim>\<open>DEFAULT_MODEL\<close> when it is set (non-empty), else the
  literal \<^verbatim>\<open>'deepseek-chat'\<close>.
\<close>

theorem openai_path_model:
  "default_param p ''openai'' \<noteq> SStr ''deepseek'' \<and> str_truthy (OPENAI_API_KEY env)
   \<longrightarrow> take 1 (snd (callAI net ms env p model)) =
       [chat_request openai_url (OPENAI_API_KEY env)
          (SStr (if str_truthy model then str_text model
                 else if str_truthy (DEFAULT_MODEL env) then str_text (DEFAULT_MODEL env)
                 else ''deepseek-chat'')) ms]"
  by (simp add: callAI_def primary_call_def Let_def str_or_model callOpenAI_trace
        split: sum.splits)

theorem openai_path_model_witness:
  "take 1 (snd (callAI (answers good good) hi (env_of (SStr ''sk-o'') SUndefined SUndefined)
                  SUndefined SUndefined))
     = [chat_request openai_url (SStr ''sk-o'') (SStr ''deepseek-chat'') hi]
   \<and> take 1 (snd (callAI (answers good good) hi
                     (env_of (SStr ''sk-o'') SUndefined (SStr ''gpt-4o'')) SUndefined SUndefined))
     = [chat_request openai_url (SStr ''sk-o'') (SStr ''gpt-4o'') hi]
   \<and> take 1 (snd (callAI (answers good good) hi
                     (env_of (SStr ''sk-o'') SUndefined (SStr ''gpt-4o'')) (SStr ''openai'')
                     (SStr ''gpt-4'')))
     = [chat_request openai_url (SStr ''sk-o'') (SStr ''gpt-4'') hi]"
  using openai_path_model [of SUndefined "env_of (SStr ''sk-o'') SUndefined SUndefined"
          "answers good good" hi SUndefined]
        openai_path_model [of SUndefined "env_of (SStr ''sk-o'') SUndefined (SStr ''gpt-4o'')"
          "answers good good" hi SUndefined]
        openai_path_model [of "SStr ''openai''" "env_of (SStr ''sk-o'') SUndefined (SStr ''gpt-4o'')"
          "answers good good" hi "SStr ''gpt-4''"]
  by (simp add: default_param_def env_of_def)

text \<open>
  C3. The \<^verbatim>\<open>askAI\<close> resolver is evaluated on a request that prefers \<^verbatim>\<open>'openai'\<close> and
  gives no model override, the OpenAI endpoint answering with a completion. With no
  \<^verbatim>\<open>DEFAULT_MODEL\<close> the request sent carries model \<^verbatim>\<open>'deepseek-chat'\<close>, with
  \<^verbatim>\<open>DEFAULT_MODEL = 'gpt-4o'\<close> it carries \<^verbatim>\<open>'gpt-4o'\<close>; in both cases the \<^verbatim>\<open>model\<close>
  field of the response is \<^verbatim>\<open>'gpt-3.5-turbo'\<close>, which is not the model the coordinator
  resolved.
\<close>

theorem askAI_reported_model:
  "askAI (answers good good) ''hi'' (SStr ''openai'') SUndefined
      (env_of (SStr ''sk-o'') SUndefined SUndefined)
     = (Inr \<lparr> resp_content = JStr ''hello'',
              resp_model = SStr ''gpt-3.5-turbo'',
              resp_provider = SStr ''openai'',
              resp_usage = \<lparr> promptTokens = JNum 5, completionTokens = JNum 7,
                             totalTokens = JNum 12 \<rparr> \<rparr>,
        [chat_request openai_url (SStr ''sk-o'') (SStr ''deepseek-chat'') hi])
   \<and> askAI (answers good good) ''hi'' (SStr ''openai'') SUndefined
      (env_of (SStr ''sk-o'') SUndefined (SStr ''gpt-4o''))
     = (Inr \<lparr> resp_content = JStr ''hello'',
              resp_model = SStr ''gpt-3.5-turbo'',
              resp_provider = SStr ''openai'',
              resp_usage = \<lparr> promptTokens = JNum 5, completionTokens = JNum 7,
                             totalTokens = JNum 12 \<rparr> \<rparr>,
        [chat_request openai_url (SStr ''sk-o'') (SStr ''gpt-4o'') hi])"
  by (simp add: resolver_defs client_defs exchange_defs)

text \<open>
  C4. \<^verbatim>\<open>callAI\<close> never issues more than two requests. When the primary call fails, the
  fallback is eligible and the fallback call fails too, \<^verbatim>\<open>callAI\<close> fails with the
  error of the fallback call, and the requests issued are those of the primary call
  followed by the single request of the fallback: nothing is retried after it.
\<close>

theorem fallback_failure_propagates:
  "length (snd (callAI net ms env p model)) \<le> 2
   \<and> (default_param p ''openai'' = SStr ''openai''
      \<and> fst (primary_call net ms env (SStr ''openai'') model) = Inl e1
      \<and> str_truthy (DEEPSEEK_API_KEY env)
      \<and> fst (callDeepSeek net ms (DEEPSEEK_API_KEY env) (SStr ''deepseek-chat'')) = Inl e2
    \<longrightarrow> callAI net ms env p model =
          (Inl e2, snd (primary_call net ms env (SStr ''openai'') model)
                   @ [chat_request deepseek_url (DEEPSEEK_API_KEY env) (SStr ''deepseek-chat'') ms]))
   \<and> (p = SStr ''deepseek''
      \<and> fst (primary_call net ms env (SStr ''deepseek'') model) = Inl e1
      \<and> str_truthy (OPENAI_API_KEY env)
      \<and> fst (callOpenAI net ms (OPENAI_API_KEY env) (SStr ''gpt-3.5-turbo'')) = Inl e2
    \<longrightarrow> callAI net ms env p model =
          (Inl e2, snd (primary_call net ms env (SStr ''deepseek'') model)
                   @ [chat_request openai_url (OPENAI_API_KEY env) (SStr ''gpt-3.5-turbo'') ms]))"
proof (intro conjI impI)
  have a: "length (snd (primary_call net ms env q model)) \<le> 1" for q
    using client_trace_short [of net ms] by (simp add: primary_call_def)
  have b: "length (snd (callDeepSeek net ms k m)) \<le> 1" for k m
    by (rule client_trace_short)
  have c: "length (snd (callOpenAI net ms k m)) \<le> 1" for k m
    by (rule client_trace_short)
  show "length (snd (callAI net ms env p model)) \<le> 2"
    using a [of "default_param p ''openai''"] b [of "DEEPSEEK_API_KEY env" "SStr ''deepseek-chat''"]
      c [of "OPENAI_API_KEY env" "SStr ''gpt-3.5-turbo''"]
    by (auto simp add: callAI_def Let_def split: sum.splits)
next
  assume "default_param p ''openai'' = SStr ''openai''
      \<and> fst (primary_call net ms env (SStr ''openai'') model) = Inl e1
      \<and> str_truthy (DEEPSEEK_API_KEY env)
      \<and> fst (callDeepSeek net ms (DEEPSEEK_API_KEY env) (SStr ''deepseek-chat'')) = Inl e2"
  then show "callAI net ms env p model =
          (Inl e2, snd (primary_call net ms env (SStr ''openai'') model)
                   @ [chat_request deepseek_url (DEEPSEEK_API_KEY env) (SStr ''deepseek-chat'') ms])"
    by (simp add: callAI_def Let_def callDeepSeek_trace)
next
  assume "p = SStr ''deepseek''
      \<and> fst (primary_call net ms env (SStr ''deepseek'') model) = Inl e1
      \<and> str_truthy (OPENAI_API_KEY env)
      \<and> fst (callOpenAI net ms (OPENAI_API_KEY env) (SStr ''gpt-3.5-turbo'')) = Inl e2"
  then show "callAI net ms env p model =
          (Inl e2, snd (primary_call net ms env (SStr ''deepseek'') model)
                   @ [chat_request openai_url (OPENAI_API_KEY env) (SStr ''gpt-3.5-turbo'') ms])"
    by (simp add: callAI_def Let_def default_param_def callOpenAI_trace)
qed

theorem fallback_failure_propagates_witness:
  "fst (primary_call (answers unauthorized bad_gateway) hi
          (env_of (SStr ''sk-o'') (SStr ''sk-d'') SUndefined) (SStr ''openai'') SUndefined)
     = Inl (OpenAIApiError 401
              (JObj [(''error'', JObj [(''message'', JStr ''Incorrect API key''),
                                       (''type'', JStr ''invalid_request_error'')])]))
   \<and> callAI (answers unauthorized bad_gateway) hi
        (env_of (SStr ''sk-o'') (SStr ''sk-d'') SUndefined) (SStr ''openai'') SUndefined
     = (Inl (DeepSeekApiError 502 ''<html>Bad Gateway</html>''),
        [chat_request openai_url (SStr ''sk-o'') (SStr ''deepseek-chat'') hi,
         chat_request deepseek_url (SStr ''sk-d'') (SStr ''deepseek-chat'') hi])
   \<and> fst (primary_call (answers bad_gateway unauthorized) hi
          (env_of (SStr ''sk-o'') (SStr ''sk-d'') SUndefined) (SStr ''deepseek'') SUndefined)
     = Inl (DeepSeekApiError 401 (body_text unauthorized))
   \<and> callAI (answers bad_gateway unauthorized) hi
        (env_of (SStr ''sk-o'') (SStr ''sk-d'') SUndefined) (SStr ''deepseek'') SUndefined
     = (Inl JsonSyntaxError,
        [chat_request deepseek_url (SStr ''sk-d'') (SStr ''deepseek-chat'') hi,
         chat_request openai_url (SStr ''sk-o'') (SStr ''gpt-3.5-turbo'') hi])"
proof -
  let ?env = "env_of (SStr ''sk-o'') (SStr ''sk-d'') SUndefined"
  let ?e = "OpenAIApiError 401
              (JObj [(''error'', JObj [(''message'', JStr ''Incorrect API key''),
                                       (''type'', JStr ''invalid_request_error'')])])"
  let ?t = "body_text unauthorized"
  have p1: "primary_call (answers unauthorized bad_gateway) hi ?env (SStr ''openai'') SUndefined
     = (Inl ?e, [chat_request openai_url (SStr ''sk-o'') (SStr ''deepseek-chat'') hi])"
    by (simp add: primary_call_def client_defs exchange_defs)
  have f1: "callDeepSeek (answers unauthorized bad_gateway) hi (SStr ''sk-d'') (SStr ''deepseek-chat'')
     = (Inl (DeepSeekApiError 502 ''<html>Bad Gateway</html>''),
        [chat_request deepseek_url (SStr ''sk-d'') (SStr ''deepseek-chat'') hi])"
    by (simp add: client_defs exchange_defs)
  have p2: "primary_call (answers bad_gateway unauthorized) hi ?env (SStr ''deepseek'') SUndefined
     = (Inl (DeepSeekApiError 401 ?t),
        [chat_request deepseek_url (SStr ''sk-d'') (SStr ''deepseek-chat'') hi])"
    by (simp add: primary_call_def client_defs exchange_defs)
  have f2: "callOpenAI (answers bad_gateway unauthorized) hi (SStr ''sk-o'') (SStr ''gpt-3.5-turbo'')
     = (Inl JsonSyntaxError,
        [chat_request openai_url (SStr ''sk-o'') (SStr ''gpt-3.5-turbo'') hi])"
    by (simp add: client_defs exchange_defs)
  have k: "OPENAI_API_KEY ?env = SStr ''sk-o''" "DEEPSEEK_API_KEY ?env = SStr ''sk-d''"
    by (simp_all add: env_of_def)
  note t = fallback_failure_propagates
    [of "answers unauthorized bad_gateway" hi ?env "SStr ''openai''" SUndefined ?e
        "DeepSeekApiError 502 ''<html>Bad Gateway</html>''"]
  note u = fallback_failure_propagates
    [of "answers bad_gateway unauthorized" hi ?env "SStr ''deepseek''" SUndefined
        "DeepSeekApiError 401 ?t" JsonSyntaxError]
  have 1: "callAI (answers unauthorized bad_gateway) hi ?env (SStr ''openai'') SUndefined
     = (Inl (DeepSeekApiError 502 ''<html>Bad Gateway</html>''),
        [chat_request openai_url (SStr ''sk-o'') (SStr ''deepseek-chat'') hi,
         chat_request deepseek_url (SStr ''sk-d'') (SStr ''deepseek-chat'') hi])"
    using t p1 f1 k by (simp add: default_param_def)
  have 2: "callAI (answers bad_gateway unauthorized) hi ?env (SStr ''deepseek'') SUndefined
     = (Inl JsonSyntaxError,
        [chat_request deepseek_url (SStr ''sk-d'') (SStr ''deepseek-chat'') hi,
         chat_request openai_url (SStr ''sk-o'') (SStr ''gpt-3.5-turbo'') hi])"
    using u p2 f2 k by (simp add: default_param_def)
  show ?thesis using 1 2 p1 p2 by simp
qed

section \<open>Upstream failures and malformed answers\<close>

text \<open>
  C5. Both clients are evaluated on an upstream answer with status 502 whose body is an
  HTML page, not JSON. The DeepSeek client fails with its generic error carrying the status
  and the body text. The OpenAI client reads the error body with \<^verbatim>\<open>response.json()\<close>,
  which rejects: it fails with that parse error, neither with the quota error nor with its
  generic error carrying the status.
\<close>

theorem openai_error_body_not_json:
  "callOpenAI (answers bad_gateway bad_gateway) hi (SStr ''sk-o'') (SStr ''gpt-3.5-turbo'')
     = (Inl JsonSyntaxError,
        [chat_request openai_url (SStr ''sk-o'') (SStr ''gpt-3.5-turbo'') hi])
   \<and> callDeepSeek (answers bad_gateway bad_gateway) hi (SStr ''sk-d'') (SStr ''deepseek-chat'')
     = (Inl (DeepSeekApiError 502 ''<html>Bad Gateway</html>''),
        [chat_request deepseek_url (SStr ''sk-d'') (SStr ''deepseek-chat'') hi])"
  by (simp add: client_defs exchange_defs)

text \<open>
  C6. Let an upstream answer have a status in 200..299 and a JSON body whose \<^verbatim>\<open>choices\<close>
  member is an array that is empty, or whose first choice is \<^verbatim>\<open>null\<close>, or whose first
  choice has a message whose \<^verbatim>\<open>content\<close> is absent or falsy (the empty string,
  \<^verbatim>\<open>null\<close>, \<^verbatim>\<open>0\<close>, \<^verbatim>\<open>false\<close>). Then each client, called with a key, succeeds, and the
  content of its result is the string \<^verbatim>\<open>'No response'\<close>; the usage is the body's
  \<^verbatim>\<open>usage\<close> member. The optional chaining of
  \<^verbatim>\<open>data.choices[0]?.message.content\<close> guards the first choice only: the declared types
  \<^verbatim>\<open>OpenAIResponse\<close> and \<^verbatim>\<open>DeepSeekResponse\<close> make \<^verbatim>\<open>choices\<close> and \<^verbatim>\<open>message\<close>
  required.
\<close>

theorem missing_content_no_response:
  "str_truthy k \<and> ok r \<and> body_json r = Some d
   \<and> js_get d ''choices'' = Inr (JArr cs) \<and> js_get d ''usage'' = Inr u
   \<and> (cs = []
      \<or> (\<exists>choice rest. cs = choice # rest
            \<and> (nullish choice
               \<or> (\<exists>message c. js_get choice ''message'' = Inr message
                     \<and> js_get message ''content'' = Inr c \<and> \<not> truthy c))))
   \<longrightarrow> (net (chat_request openai_url k (default_param m ''gpt-3.5-turbo'') ms) = Responded r
        \<longrightarrow> callOpenAI net ms k m =
              (Inr \<lparr> result_content = JStr ''No response'', result_usage = u \<rparr>,
               [chat_request openai_url k (default_param m ''gpt-3.5-turbo'') ms]))
     \<and> (net (chat_request deepseek_url k (default_param m ''deepseek-chat'') ms) = Responded r
        \<longrightarrow> callDeepSeek net ms k m =
              (Inr \<lparr> result_content = JStr ''No response'', result_usage = u \<rparr>,
               [chat_request deepseek_url k (default_param m ''deepseek-chat'') ms]))"
proof (intro impI)
  assume a: "str_truthy k \<and> ok r \<and> body_json r = Some d
   \<and> js_get d ''choices'' = Inr (JArr cs) \<and> js_get d ''usage'' = Inr u
   \<and> (cs = []
      \<or> (\<exists>choice rest. cs = choice # rest
            \<and> (nullish choice
               \<or> (\<exists>message c. js_get choice ''message'' = Inr message
                     \<and> js_get message ''content'' = Inr c \<and> \<not> truthy c))))"
  then have "choice_content d = Inr JUndefined
             \<or> (\<exists>c. choice_content d = Inr c \<and> \<not> truthy c)"
    by (auto simp add: choice_content_def)
  with a have p: "parse_completion d
                  = Inr \<lparr> result_content = JStr ''No response'', result_usage = u \<rparr>"
    by (auto simp add: parse_completion_def)
  from a p show
    "(net (chat_request openai_url k (default_param m ''gpt-3.5-turbo'') ms) = Responded r
        \<longrightarrow> callOpenAI net ms k m =
              (Inr \<lparr> result_content = JStr ''No response'', result_usage = u \<rparr>,
               [chat_request openai_url k (default_param m ''gpt-3.5-turbo'') ms]))
     \<and> (net (chat_request deepseek_url k (default_param m ''deepseek-chat'') ms) = Responded r
        \<longrightarrow> callDeepSeek net ms k m =
              (Inr \<lparr> result_content = JStr ''No response'', result_usage = u \<rparr>,
               [chat_request deepseek_url k (default_param m ''deepseek-chat'') ms]))"
    by (simp add: callOpenAI_def callDeepSeek_def Let_def)
qed


theorem missing_content_no_response_witness:
  "callOpenAI (answers empty_choices blank_content) hi (SStr ''sk-o'') SUndefined
     = (Inr \<lparr> result_content = JStr ''No response'', result_usage = JUndefined \<rparr>,
        [chat_request openai_url (SStr ''sk-o'') (SStr ''gpt-3.5-turbo'') hi])
   \<and> callDeepSeek (answers empty_choices blank_content) hi (SStr ''sk-d'') SUndefined
     = (Inr \<lparr> result_content = JStr ''No response'', result_usage = JUndefined \<rparr>,
        [chat_request deepseek_url (SStr ''sk-d'') (SStr ''deepseek-chat'') hi])"
proof -
  let ?net = "answers empty_choices blank_content"
  have 1: "callOpenAI ?net hi (SStr ''sk-o'') SUndefined
     = (Inr \<lparr> result_content = JStr ''No response'', result_usage = JUndefined \<rparr>,
        [chat_request openai_url (SStr ''sk-o'') (SStr ''gpt-3.5-turbo'') hi])"
    using missing_content_no_response
      [of "SStr ''sk-o''" empty_choices "JObj [(''choices'', JArr [])]" "[]" JUndefined
          ?net SUndefined hi]
    by (simp add: exchange_defs ok_def default_param_def chat_request_def)
  have 2: "callDeepSeek ?net hi (SStr ''sk-d'') SUndefined
     = (Inr \<lparr> result_content = JStr ''No response'', result_usage = JUndefined \<rparr>,
        [chat_request deepseek_url (SStr ''sk-d'') (SStr ''deepseek-chat'') hi])"
    using missing_content_no_response
      [of "SStr ''sk-d''" blank_content
          "JObj [(''choices'',
                     JArr [JObj [(''index'', JNum 0),
                                 (''message'', JObj [(''role'', JStr ''assistant''),
                                                     (''content'', JStr [])])]])]"
          "[JObj [(''index'', JNum 0),
                                 (''message'', JObj [(''role'', JStr ''assistant''),
                                                     (''content'', JStr [])])]]" JUndefined
          ?net SUndefined hi]
    by (simp add: exchange_defs ok_def default_param_def chat_request_def
          openai_url_def deepseek_url_def)
  show ?thesis using 1 2 by simp
qed

text \<open>
  A body can lack \<^verbatim>\<open>choices[0].message.content\<close> in other ways, and then the clients
  fail: with a first choice that has no \<^verbatim>\<open>message\<close>, and with no \<^verbatim>\<open>choices\<close> member
  at all (an error object sent under status 200), reading the next member throws.
\<close>

theorem missing_message_fails:
  "callOpenAI (answers no_message no_message) hi (SStr ''sk-o'') SUndefined
     = (Inl TypeError, [chat_request openai_url (SStr ''sk-o'') (SStr ''gpt-3.5-turbo'') hi])
   \<and> callDeepSeek (answers no_message no_message) hi (SStr ''sk-d'') SUndefined
     = (Inl TypeError, [chat_request deepseek_url (SStr ''sk-d'') (SStr ''deepseek-chat'') hi])
   \<and> callOpenAI (answers error_as_success error_as_success) hi (SStr ''sk-o'') SUndefined
     = (Inl TypeError, [chat_request openai_url (SStr ''sk-o'') (SStr ''gpt-3.5-turbo'') hi])
   \<and> callDeepSeek (answers error_as_success error_as_success) hi (SStr ''sk-d'') SUndefined
     = (Inl TypeError, [chat_request deepseek_url (SStr ''sk-d'') (SStr ''deepseek-chat'') hi])"
  by (simp add: client_defs exchange_defs)

section \<open>Missing credentials\<close>

text \<open>
  C7. Each provider client, called with an empty API key, fails at once with its
  missing-credential error, whatever the messages, the model and the network are, and the
  list of requests it issued is empty: \<^verbatim>\<open>fetch\<close> is never reached.
\<close>

theorem empty_key_fails_before_fetch:
  "callOpenAI net messages (SStr []) model = (Inl (MissingKey OpenAI), [])
   \<and> callDeepSeek net messages (SStr []) model = (Inl (MissingKey DeepSeek), [])"
  by (simp add: callOpenAI_def callDeepSeek_def)

theorem empty_key_fails_before_fetch_witness:
  "callOpenAI (answers good good) hi (SStr []) (SStr ''gpt-4'')
     = (Inl (MissingKey OpenAI), [])
   \<and> callDeepSeek (answers good good) hi (SStr []) SUndefined
     = (Inl (MissingKey DeepSeek), [])"
  using empty_key_fails_before_fetch [of "answers good good" hi "SStr ''gpt-4''"]
        empty_key_fails_before_fetch [of "answers good good" hi SUndefined]
  by simp

text \<open>
  C8. When neither key is configured (absent, or empty), \<^verbatim>\<open>callAI\<close> fails with the
  missing-credential error of the client of the preferred provider and issues no request:
  the fallback is not attempted. The \<^verbatim>\<open>askAI\<close> resolver then fails with that error
  under its prefix \<^verbatim>\<open>'AI query failed: '\<close>, and no request was issued either.
\<close>

theorem no_credentials:
  "\<not> str_truthy (OPENAI_API_KEY env) \<and> \<not> str_truthy (DEEPSEEK_API_KEY env)
   \<longrightarrow> callAI net ms env p model =
         (Inl (MissingKey (if default_param p ''openai'' = SStr ''deepseek'' then DeepSeek
                           else OpenAI)), [])
     \<and> askAI net prompt p model env =
         (Inl (ResolverError ''AI query failed: ''
                 (MissingKey (if default_param p ''openai'' = SStr ''deepseek'' then DeepSeek
                              else OpenAI))), [])"
proof
  assume a: "\<not> str_truthy (OPENAI_API_KEY env) \<and> \<not> str_truthy (DEEPSEEK_API_KEY env)"
  have dd: "default_param (default_param p ''openai'') ''openai'' = default_param p ''openai''"
    by (cases p) (simp_all add: default_param_def)
  have c: "callAI net msgs env q model =
         (Inl (MissingKey (if default_param q ''openai'' = SStr ''deepseek'' then DeepSeek
                           else OpenAI)), [])" for q msgs
    using a by (simp add: callAI_def primary_call_def callOpenAI_def callDeepSeek_def Let_def)
  show "callAI net ms env p model =
         (Inl (MissingKey (if default_param p ''openai'' = SStr ''deepseek'' then DeepSeek
                           else OpenAI)), [])
     \<and> askAI net prompt p model env =
         (Inl (ResolverError ''AI query failed: ''
                 (MissingKey (if default_param p ''openai'' = SStr ''deepseek'' then DeepSeek
                              else OpenAI))), [])"
    using c [of ms p] c [of "[\<lparr> role = User, content = prompt \<rparr>]" "default_param p ''openai''"]
    by (simp add: askAI_def Let_def dd)
qed


theorem no_credentials_witness:
  "\<not> str_truthy (OPENAI_API_KEY (env_of SUndefined SUndefined SUndefined))
   \<and> \<not> str_truthy (DEEPSEEK_API_KEY (env_of SUndefined SUndefined SUndefined))
   \<and> callAI (answers good good) hi (env_of SUndefined SUndefined SUndefined) (SStr ''deepseek'')
        SUndefined = (Inl (MissingKey DeepSeek), [])
   \<and> askAI (answers good good) ''hi'' SUndefined SUndefined
        (env_of SUndefined SUndefined SUndefined)
       = (Inl (ResolverError ''AI query failed: '' (MissingKey OpenAI)), [])"
  using no_credentials [of "env_of SUndefined SUndefined SUndefined" "answers good good" hi
          "SStr ''deepseek''" SUndefined "''hi''"]
        no_credentials [of "env_of SUndefined SUndefined SUndefined" "answers good good" hi
          SUndefined SUndefined "''hi''"]
  by (simp add: env_of_def default_param_def)

section \<open>Usage accounting\<close>



section \<open>Empty and absent credentials\<close>

text \<open>
  C10. An empty-string key and an absent key are treated alike: each client gives the
  same outcome for both, and so does \<^verbatim>\<open>callAI\<close> when either key of the environment is
  changed from the one to the other. With an empty OpenAI key and a non-empty DeepSeek
  key, \<^verbatim>\<open>callAI\<close> preferring \<^verbatim>\<open>'openai'\<close> issues a single request, to DeepSeek with model
  \<^verbatim>\<open>'deepseek-chat'\<close>, and its outcome is the outcome of that call, a success being tagged
  \<^verbatim>\<open>'deepseek'\<close>. With both keys empty it fails with the missing-credential error and
  issues no request.
\<close>

theorem empty_key_as_absent:
  "callOpenAI net ms (SStr []) m = callOpenAI net ms SUndefined m
   \<and> callDeepSeek net ms (SStr []) m = callDeepSeek net ms SUndefined m
   \<and> callAI net ms (env\<lparr>OPENAI_API_KEY := SStr []\<rparr>) p m
     = callAI net ms (env\<lparr>OPENAI_API_KEY := SUndefined\<rparr>) p m
   \<and> callAI net ms (env\<lparr>DEEPSEEK_API_KEY := SStr []\<rparr>) p m
     = callAI net ms (env\<lparr>DEEPSEEK_API_KEY := SUndefined\<rparr>) p m
   \<and> (default_param p ''openai'' = SStr ''openai'' \<and> OPENAI_API_KEY env = SStr []
      \<and> str_truthy (DEEPSEEK_API_KEY env)
      \<longrightarrow> callAI net ms env p m =
            (map_sum id (\<lambda>r. with_provider r (SStr ''deepseek''))
               (fst (callDeepSeek net ms (DEEPSEEK_API_KEY env) (SStr ''deepseek-chat''))),
             [chat_request deepseek_url (DEEPSEEK_API_KEY env) (SStr ''deepseek-chat'') ms]))
   \<and> (OPENAI_API_KEY env = SStr [] \<and> DEEPSEEK_API_KEY env = SStr []
      \<longrightarrow> callAI net ms env p m =
            (Inl (MissingKey (if default_param p ''openai'' = SStr ''deepseek'' then DeepSeek
                              else OpenAI)), []))"
proof (intro conjI impI)
  show "callOpenAI net ms (SStr []) m = callOpenAI net ms SUndefined m"
    by (simp add: callOpenAI_def)
  show "callDeepSeek net ms (SStr []) m = callDeepSeek net ms SUndefined m"
    by (simp add: callDeepSeek_def)
  have o: "callOpenAI net ms (SStr []) x = (Inl (MissingKey OpenAI), [])"
          "callOpenAI net ms SUndefined x = (Inl (MissingKey OpenAI), [])" for x
    by (simp_all add: callOpenAI_def)
  have d: "callDeepSeek net ms (SStr []) x = (Inl (MissingKey DeepSeek), [])"
          "callDeepSeek net ms SUndefined x = (Inl (MissingKey DeepSeek), [])" for x
    by (simp_all add: callDeepSeek_def)
  show "callAI net ms (env\<lparr>OPENAI_API_KEY := SStr []\<rparr>) p m
     = callAI net ms (env\<lparr>OPENAI_API_KEY := SUndefined\<rparr>) p m"
    by (simp add: callAI_def primary_call_def Let_def o split: sum.splits)
  show "callAI net ms (env\<lparr>DEEPSEEK_API_KEY := SStr []\<rparr>) p m
     = callAI net ms (env\<lparr>DEEPSEEK_API_KEY := SUndefined\<rparr>) p m"
    by (simp add: callAI_def primary_call_def Let_def d split: sum.splits)
  {
    assume "default_param p ''openai'' = SStr ''openai'' \<and> OPENAI_API_KEY env = SStr []
      \<and> str_truthy (DEEPSEEK_API_KEY env)"
    then show "callAI net ms env p m =
            (map_sum id (\<lambda>r. with_provider r (SStr ''deepseek''))
               (fst (callDeepSeek net ms (DEEPSEEK_API_KEY env) (SStr ''deepseek-chat''))),
             [chat_request deepseek_url (DEEPSEEK_API_KEY env) (SStr ''deepseek-chat'') ms])"
      by (simp add: callAI_def primary_call_def Let_def o callDeepSeek_trace split: sum.splits)
  }
  {
    assume "OPENAI_API_KEY env = SStr [] \<and> DEEPSEEK_API_KEY env = SStr []"
    then show "callAI net ms env p m =
            (Inl (MissingKey (if default_param p ''openai'' = SStr ''deepseek'' then DeepSeek
                              else OpenAI)), [])"
      by (simp add: callAI_def primary_call_def Let_def o d)
  }
qed

theorem empty_key_as_absent_witness:
  "callAI (answers good good) hi (env_of (SStr []) (SStr ''sk-d'') SUndefined) SUndefined
      SUndefined
     = (Inr \<lparr> result_content = JStr ''hello'',
              result_usage = JObj [(''prompt_tokens'', JNum 5), (''completion_tokens'', JNum 7),
                                   (''total_tokens'', JNum 12)],
              provider = SStr ''deepseek'' \<rparr>,
        [chat_request deepseek_url (SStr ''sk-d'') (SStr ''deepseek-chat'') hi])
   \<and> callAI (answers good good) hi (env_of (SStr []) (SStr []) SUndefined) SUndefined SUndefined
     = (Inl (MissingKey OpenAI), [])"
proof -
  have d: "callDeepSeek (answers good good) hi (SStr ''sk-d'') (SStr ''deepseek-chat'')
            = (Inr \<lparr> result_content = JStr ''hello'',
              result_usage = JObj [(''prompt_tokens'', JNum 5), (''completion_tokens'', JNum 7),
                                   (''total_tokens'', JNum 12)] \<rparr>,
               [chat_request deepseek_url (SStr ''sk-d'') (SStr ''deepseek-chat'') hi])"
    by (simp add: client_defs exchange_defs)
  note fb = empty_key_as_absent [of "answers good good" hi SUndefined
            "env_of (SStr []) (SStr ''sk-d'') SUndefined" SUndefined,
            THEN conjunct2, THEN conjunct2, THEN conjunct2, THEN conjunct2, THEN conjunct1]
  note nk = empty_key_as_absent [of "answers good good" hi SUndefined
            "env_of (SStr []) (SStr []) SUndefined" SUndefined,
            THEN conjunct2, THEN conjunct2, THEN conjunct2, THEN conjunct2, THEN conjunct2]
  show ?thesis
    using fb nk d by (simp add: env_of_def default_param_def with_provider_def)
qed

end
